theory Spec2Isabelle
  imports Complex_Main "HOL-Library.Sublist"
begin

section \<open>Conventions\<close>

text \<open>
  The program is TypeScript. A JavaScript \<open>number\<close> is modelled as a mathematical
  \<^typ>\<open>real\<close>: \<open>Math.cos\<close>, \<open>Math.sin\<close> and \<open>Math.PI\<close> are \<^const>\<open>cos\<close>,
  \<^const>\<open>sin\<close> and \<^const>\<open>pi\<close>, and rounding is not modelled. Where the source can
  produce a value that is not a finite number (a division by zero, a tangent at its pole)
  the model says so with a type of its own (\<open>jsnum\<close> below) instead of relying on the
  value HOL gives to \<open>x / 0\<close>. A string is a \<^typ>\<open>string\<close>; a value that may be
  \<open>null\<close> or \<open>undefined\<close> is an \<^typ>\<open>'a option\<close>.
\<close>

section \<open>Kaamos viewer: sunlight hours (KaamosViewer)\<close>

text \<open>
  \<open>getSunlightHours\<close> of the Kaamos viewer, statement by statement: the cosine of the
  month's distance from June, the latitude effect, and the two clamping assignments in
  the order of the source.
\<close>

definition getSunlightHours :: "real \<Rightarrow> real \<Rightarrow> real" where
  "getSunlightHours lat monthIndex =
     (let normalizedMonth = cos (((monthIndex - 5) / 12) * 2 * pi);
          latEffect = (lat - 50) / 20;
          hours0 = 12 + (normalizedMonth * 12 * latEffect);
          hours1 = (if hours0 > 24 then 24 else hours0);
          hours2 = (if hours1 < 0 then 0 else hours1)
      in hours2)"

text \<open>
  The two flags of the component and the status texts its markup renders from them:
  \<open>{isKaamos && <span>KAAMOS (Polar Night)</span>}\<close> and
  \<open>{isMidnightSun && <span>MIDNIGHT SUN</span>}\<close>.
\<close>

definition isKaamos :: "real \<Rightarrow> bool" where
  "isKaamos hours = (hours = 0)"

definition isMidnightSun :: "real \<Rightarrow> bool" where
  "isMidnightSun hours = (hours = 24)"

definition statusText :: "real \<Rightarrow> real \<Rightarrow> string list" where
  "statusText lat monthIndex =
     (let hours = getSunlightHours lat monthIndex
      in (if isKaamos hours then [''KAAMOS (Polar Night)''] else []) @
         (if isMidnightSun hours then [''MIDNIGHT SUN''] else []))"

section \<open>Shadow lab: shadow length (ShadowLab)\<close>

text \<open>
  The result of a JavaScript arithmetic expression: a finite number, one of the two
  infinities, or NaN.
\<close>

datatype jsnum = Num real | PosInfinity | NegInfinity | NaN

text \<open>
  \<open>Math.tan\<close> on an exact angle. Away from its poles it is \<open>sin / cos\<close>; at a pole the
  exact tangent has no finite value, and the model returns the infinity that the tangent
  tends to from below (the side from which \<open>sunHeight * Math.PI / 180\<close> approaches it).
\<close>

definition Math_tan :: "real \<Rightarrow> jsnum" where
  "Math_tan a =
     (if cos a = 0 then (if sin a > 0 then PosInfinity else NegInfinity)
      else Num (sin a / cos a))"

text \<open>
  The division \<open>n / d\<close> of a finite \<open>n\<close> by the result of \<open>Math.tan\<close>, as IEEE
  arithmetic defines it: a division by zero is an infinity (NaN for \<open>0 / 0\<close>), a finite
  number divided by an infinity is zero, and NaN propagates.
\<close>

fun js_div :: "real \<Rightarrow> jsnum \<Rightarrow> jsnum" where
  "js_div n (Num d) =
     (if d = 0 then (if n = 0 then NaN else if n > 0 then PosInfinity else NegInfinity)
      else Num (n / d))"
| "js_div n PosInfinity = Num 0"
| "js_div n NegInfinity = Num 0"
| "js_div n NaN = NaN"

text \<open>
  The body of the component: \<open>angleRad\<close>, the quotient \<open>100 / Math.tan(angleRad)\<close>, and
  the assignment that overrides it when \<open>sunHeight <= 5\<close>.
\<close>

definition shadowLength :: "real \<Rightarrow> jsnum" where
  "shadowLength sunHeight =
     (let angleRad = (sunHeight * pi) / 180;
          shadowLength0 = js_div 100 (Math_tan angleRad)
      in if sunHeight \<le> 5 then Num 600 else shadowLength0)"

section \<open>Quiz content lookup (geminiService)\<close>

record QuizQuestion =
  question :: string
  options :: "string list"
  correctAnswerIndex :: nat
  explanation :: string

definition DEFAULT_QUESTIONS :: "QuizQuestion list" where
  "DEFAULT_QUESTIONS =
    [\<lparr>question = ''What is the primary reason for Earth's seasons?'',
      options = [''Distance from the Sun'', ''Axial Tilt (23.5'' @ [CHR 0xB0] @ '')'',
                 ''Solar Flares'', ''The Moon's orbit''],
      correctAnswerIndex = 1,
      explanation = ''Earth's axis is tilted 23.5 degrees. As we orbit the Sun, this tilt causes different hemispheres to receive more direct sunlight at different times of the year.''\<rparr>,
     \<lparr>question = ''Approximately how long does it take for Earth to complete one revolution around the Sun?'',
      options = [''24 hours'', ''30 days'', ''365.25 days'', ''10 years''],
      correctAnswerIndex = 2,
      explanation = ''One revolution equals one year, which is approximately 365.25 days.''\<rparr>,
     \<lparr>question = ''Which motion causes day and night?'',
      options = [''Revolution'', ''Rotation'', ''Precession'', ''Gravitation''],
      correctAnswerIndex = 1,
      explanation = ''Earth rotates on its axis once every 24 hours, causing day and night.''\<rparr>]"

definition KAAMOS_QUESTIONS :: "QuizQuestion list" where
  "KAAMOS_QUESTIONS =
    [\<lparr>question = ''What is 'Kaamos'?'',
      options = [''A type of snow'', ''Polar Night (Sun doesn't rise)'',
                 ''The Northern Lights'', ''Midsummer Festival''],
      correctAnswerIndex = 1,
      explanation = ''Kaamos is the Finnish term for the Polar Night, a period in winter north of the Arctic Circle when the sun does not rise above the horizon.''\<rparr>,
     \<lparr>question = ''Where can you experience the Midnight Sun?'',
      options = [''At the Equator'', ''Anywhere in Europe'', ''North of the Arctic Circle'',
                 ''Only at the South Pole''],
      correctAnswerIndex = 2,
      explanation = ''The Midnight Sun is a natural phenomenon that occurs in the summer months in places north of the Arctic Circle or south of the Antarctic Circle.''\<rparr>,
     \<lparr>question = ''In Rovaniemi (Arctic Circle), approximately how much sunlight is there in mid-winter?'',
      options = [''12 hours'', ''Only a few hours of twilight'', ''24 hours'', ''8 hours''],
      correctAnswerIndex = 1,
      explanation = ''In mid-winter near the Arctic Circle, the sun barely rises, resulting in very short days or just twilight.''\<rparr>]"

definition SHADOW_QUESTIONS :: "QuizQuestion list" where
  "SHADOW_QUESTIONS =
    [\<lparr>question = ''When is your shadow the shortest?'',
      options = [''Sunrise'', ''Noon'', ''Sunset'', ''Midnight''],
      correctAnswerIndex = 1,
      explanation = ''Shadows are shortest when the light source (the Sun) is at its highest point in the sky, typically around solar noon.''\<rparr>,
     \<lparr>question = ''If the Sun is low in the sky (like winter in Finland), your shadow will be:'',
      options = [''Very short'', ''Very long'', ''Invisible'', ''The same as your height''],
      correctAnswerIndex = 1,
      explanation = ''A low angle of light creates long shadows. In Finnish winters, the sun stays low, creating long shadows all day.''\<rparr>,
     \<lparr>question = ''What happens to a shadow as the light source moves higher?'',
      options = [''It gets longer'', ''It gets shorter'', ''It disappears'', ''It becomes wider''],
      correctAnswerIndex = 1,
      explanation = ''As the angle of incidence increases (sun gets higher), the shadow length decreases.''\<rparr>]"

text \<open>
  \<open>TOPIC_MAP\<close> is an object literal whose keys are not integer-like, so \<open>for (key in
  TOPIC_MAP)\<close> visits them in the order they are written. The order decides which entry
  wins, so the map is an association list.
\<close>

definition TOPIC_MAP :: "(string \<times> QuizQuestion list) list" where
  "TOPIC_MAP =
    [(''kaamos'', KAAMOS_QUESTIONS),
     (''polar'', KAAMOS_QUESTIONS),
     (''shadow'', SHADOW_QUESTIONS),
     (''incidence'', SHADOW_QUESTIONS),
     (''default'', DEFAULT_QUESTIONS)]"

text \<open>
  \<open>String.prototype.toLowerCase\<close> on the characters a \<^typ>\<open>string\<close> of HOL has (bytes):
  the letters A to Z go to a to z and every other character stays.
\<close>

definition toLowerCase_char :: "char \<Rightarrow> char" where
  "toLowerCase_char c =
     (let n = (of_char c :: nat) in if 65 \<le> n \<and> n \<le> 90 then char_of (n + 32) else c)"

definition toLowerCase :: "string \<Rightarrow> string" where
  "toLowerCase s = map toLowerCase_char s"

text \<open>
  The loop \<open>for (const key in TOPIC_MAP) { if (t.includes(key)) { data = TOPIC_MAP[key];
  break; } }\<close> over the remaining keys; \<open>t.includes(key)\<close> is \<^term>\<open>sublist key t\<close>, and
  \<open>TOPIC_MAP[key]\<close> is the lookup in the whole map (\<open>undefined\<close> is \<^const>\<open>None\<close>).
\<close>

fun find_topic :: "string list \<Rightarrow> string \<Rightarrow> QuizQuestion list option \<Rightarrow> QuizQuestion list option" where
  "find_topic [] t data = data"
| "find_topic (key # keys) t data =
     (if sublist key t then map_of TOPIC_MAP key else find_topic keys t data)"

definition generateQuizQuestions :: "string \<Rightarrow> nat \<Rightarrow> QuizQuestion list option" where
  "generateQuizQuestions topic count =
     (let t = toLowerCase topic;
          data = map_of TOPIC_MAP ''default''
      in find_topic (map fst TOPIC_MAP) t data)"

section \<open>Solar-system view (Earth3D): constants and vectors\<close>

definition EARTH_RADIUS :: real where "EARTH_RADIUS = 2"
definition SEMI_MAJOR_AXIS :: real where "SEMI_MAJOR_AXIS = 250"
definition SEMI_MINOR_AXIS :: real where "SEMI_MINOR_AXIS = 215"
definition FOCAL_OFFSET :: real where "FOCAL_OFFSET = 80"
definition BASE_ROTATION_SPEED :: real where "BASE_ROTATION_SPEED = 0.15"
definition BASE_ORBIT_SPEED :: real where "BASE_ORBIT_SPEED = 0.04"
definition EARTH_ROTATION_SPEED :: real where "EARTH_ROTATION_SPEED = BASE_ROTATION_SPEED"
definition EARTH_YEAR_SPEED :: real where "EARTH_YEAR_SPEED = BASE_ORBIT_SPEED"
definition MOON_ORBIT_SPEED :: real where
  "MOON_ORBIT_SPEED = EARTH_YEAR_SPEED * 13.03571428571429"

datatype ViewMode =
  EARTH_FREE | EARTH_DAY | EARTH_NIGHT | SYSTEM_TOP | SYSTEM_AUTO | SOLAR_SYSTEM

text \<open>
  \<open>THREE.Vector3\<close> and the methods of it that the components call. The methods mutate
  the receiver; here each returns the new value of the receiver.
\<close>

datatype Vector3 = Vector3 (vx: real) (vy: real) (vz: real)

definition Vector3_add :: "Vector3 \<Rightarrow> Vector3 \<Rightarrow> Vector3" where
  "Vector3_add a b = Vector3 (vx a + vx b) (vy a + vy b) (vz a + vz b)"

definition Vector3_sub :: "Vector3 \<Rightarrow> Vector3 \<Rightarrow> Vector3" where
  "Vector3_sub a b = Vector3 (vx a - vx b) (vy a - vy b) (vz a - vz b)"

definition Vector3_multiplyScalar :: "Vector3 \<Rightarrow> real \<Rightarrow> Vector3" where
  "Vector3_multiplyScalar a k = Vector3 (vx a * k) (vy a * k) (vz a * k)"

definition Vector3_length :: "Vector3 \<Rightarrow> real" where
  "Vector3_length a = sqrt (vx a * vx a + vy a * vy a + vz a * vz a)"

definition Vector3_distanceTo :: "Vector3 \<Rightarrow> Vector3 \<Rightarrow> real" where
  "Vector3_distanceTo a b =
     (let dx = vx a - vx b; dy = vy a - vy b; dz = vz a - vz b
      in sqrt (dx * dx + dy * dy + dz * dz))"

text \<open>\<open>normalize\<close> is \<open>divideScalar(length() || 1)\<close>: the zero vector stays.\<close>

definition Vector3_normalize :: "Vector3 \<Rightarrow> Vector3" where
  "Vector3_normalize a =
     (let l = Vector3_length a; d = (if l = 0 then 1 else l)
      in Vector3 (vx a / d) (vy a / d) (vz a / d))"

definition Vector3_setLength :: "Vector3 \<Rightarrow> real \<Rightarrow> Vector3" where
  "Vector3_setLength a l = Vector3_multiplyScalar (Vector3_normalize a) l"

definition Vector3_lerp :: "Vector3 \<Rightarrow> Vector3 \<Rightarrow> real \<Rightarrow> Vector3" where
  "Vector3_lerp a b alpha =
     Vector3 (vx a + (vx b - vx a) * alpha) (vy a + (vy b - vy a) * alpha)
       (vz a + (vz b - vz a) * alpha)"

text \<open>A \<open>string | null\<close> used as a condition: \<open>null\<close> and the empty string are false.\<close>

definition truthy :: "string option \<Rightarrow> bool" where
  "truthy v = (case v of None \<Rightarrow> False | Some str \<Rightarrow> str \<noteq> [])"

section \<open>Fragment shaders: the day factor\<close>

text \<open>
  \<open>clamp\<close> and \<open>smoothstep\<close> are built-in functions of GLSL, defined by the language as
  \<open>min(max(x, lo), hi)\<close> and, for \<open>edge0 < edge1\<close>, as \<open>t * t * (3 - 2 * t)\<close> with
  \<open>t = clamp((x - edge0) / (edge1 - edge0), 0, 1)\<close>.
\<close>

definition clamp :: "real \<Rightarrow> real \<Rightarrow> real \<Rightarrow> real" where
  "clamp v lo hi = min (max v lo) hi"

definition smoothstep :: "real \<Rightarrow> real \<Rightarrow> real \<Rightarrow> real" where
  "smoothstep edge0 edge1 v =
     (let t = clamp ((v - edge0) / (edge1 - edge0)) 0 1 in t * t * (3 - 2 * t))"

text \<open>
  \<open>float dayFactor = smoothstep(-0.2, 0.2, dotProd)\<close> of \<open>earthFragmentShader\<close> and
  \<open>float dayFactor = smoothstep(-0.02, 0.02, dotProd)\<close> of \<open>moonFragmentShader\<close>, as
  functions of \<open>dotProd = dot(normal, sunDir)\<close>.
\<close>

definition earth_dayFactor :: "real \<Rightarrow> real" where
  "earth_dayFactor dotProd = smoothstep (- 0.2) 0.2 dotProd"

definition moon_dayFactor :: "real \<Rightarrow> real" where
  "moon_dayFactor dotProd = smoothstep (- 0.02) 0.02 dotProd"

section \<open>Sun, Moon and planets: the per-frame callbacks\<close>

text \<open>
  Every \<open>useFrame\<close> callback receives the frame's \<open>delta\<close> and reads the clock's elapsed
  time; both are arguments here. The refs of a mounted component are taken to be set.
  \<open>SunMesh\<close> spins the Sun by the raw \<open>delta\<close> and hands the elapsed time to the halo.
\<close>

record SunMeshState =
  sunRotationY :: real
  uTime :: real

definition SunMesh_useFrame :: "real \<Rightarrow> real \<Rightarrow> SunMeshState \<Rightarrow> SunMeshState" where
  "SunMesh_useFrame elapsedTime delta s =
     \<lparr>sunRotationY = sunRotationY s + delta * 0.002, uTime = elapsedTime\<rparr>"

text \<open>
  \<open>MoonMesh\<close> turns the Moon's orbit group by the clamped \<open>safeDelta\<close>. (The shader
  uniform it also updates needs the scene's matrices and is left out.)
\<close>

record MoonMeshState =
  moonOrbitRotationY :: real

definition MoonMesh_useFrame :: "real \<Rightarrow> MoonMeshState \<Rightarrow> MoonMeshState" where
  "MoonMesh_useFrame delta s =
     (let safeDelta = min delta 0.05
      in \<lparr>moonOrbitRotationY = moonOrbitRotationY s + safeDelta * MOON_ORBIT_SPEED\<rparr>)"

record PlanetConfig =
  name :: string
  radius :: real
  distance :: real
  speed :: real
  rotationSpeed :: real
  texture :: string
  hasRings :: "bool option"
  orbitColor :: string
  startAngle :: real
  tilt :: "real option"

definition PLANETS :: "PlanetConfig list" where
  "PLANETS =
    [\<lparr>name = ''Mercury'', radius = 0.8, distance = 70,
      speed = BASE_ORBIT_SPEED * (1 / 0.24),
      rotationSpeed = BASE_ROTATION_SPEED * (1 / 58.6),
      texture = ''mercury.jpg'', hasRings = None, orbitColor = ''#A5A5A5'',
      startAngle = 0, tilt = None\<rparr>,
     \<lparr>name = ''Venus'', radius = 1.9, distance = 110,
      speed = BASE_ORBIT_SPEED * (1 / 0.615),
      rotationSpeed = BASE_ROTATION_SPEED * (1 / - 243),
      texture = ''venus_atmosphere.jpg'', hasRings = None, orbitColor = ''#E3BB76'',
      startAngle = 2, tilt = Some (177 * (pi / 180))\<rparr>,
     \<lparr>name = ''Mars'', radius = 1.1, distance = 320,
      speed = BASE_ORBIT_SPEED * (1 / 1.88),
      rotationSpeed = BASE_ROTATION_SPEED * (1 / 1.03),
      texture = ''mars.jpg'', hasRings = None, orbitColor = ''#FF4500'',
      startAngle = 4, tilt = Some (25 * (pi / 180))\<rparr>,
     \<lparr>name = ''Jupiter'', radius = 10, distance = 450,
      speed = BASE_ORBIT_SPEED * (1 / 11.86),
      rotationSpeed = BASE_ROTATION_SPEED * (1 / 0.41),
      texture = ''jupiter.jpg'', hasRings = None, orbitColor = ''#FFA500'',
      startAngle = 1, tilt = Some (3 * (pi / 180))\<rparr>,
     \<lparr>name = ''Saturn'', radius = 8.5, distance = 580,
      speed = BASE_ORBIT_SPEED * (1 / 29.4),
      rotationSpeed = BASE_ROTATION_SPEED * (1 / 0.45),
      texture = ''saturn.jpg'', hasRings = Some True, orbitColor = ''#F4C542'',
      startAngle = 3, tilt = Some (27 * (pi / 180))\<rparr>,
     \<lparr>name = ''Uranus'', radius = 3.5, distance = 700,
      speed = BASE_ORBIT_SPEED * (1 / 84),
      rotationSpeed = BASE_ROTATION_SPEED * (1 / - 0.72),
      texture = ''uranus.jpg'', hasRings = None, orbitColor = ''#00FFFF'',
      startAngle = 5, tilt = Some (98 * (pi / 180))\<rparr>,
     \<lparr>name = ''Neptune'', radius = 3.4, distance = 800,
      speed = BASE_ORBIT_SPEED * (1 / 164.8),
      rotationSpeed = BASE_ROTATION_SPEED * (1 / 0.67),
      texture = ''neptune.jpg'', hasRings = None, orbitColor = ''#4169E1'',
      startAngle = 0.5, tilt = Some (28 * (pi / 180))\<rparr>]"

text \<open>
  \<open>PlanetMesh\<close>: the position of the planet's group and the spin of its mesh. The group
  starts at the origin; the callback writes its \<open>x\<close> and \<open>z\<close> from the elapsed time and
  never its \<open>y\<close>, and adds \<open>rotationSpeed * delta\<close>, with the raw \<open>delta\<close>, to the spin.
\<close>

record PlanetMeshState =
  orbitPosition :: Vector3
  rotationY :: real

definition PlanetMesh_init :: PlanetMeshState where
  "PlanetMesh_init = \<lparr>orbitPosition = Vector3 0 0 0, rotationY = 0\<rparr>"

definition currentAngle :: "PlanetConfig \<Rightarrow> real \<Rightarrow> real" where
  "currentAngle config t = startAngle config + t * speed config"

definition PlanetMesh_useFrame ::
  "PlanetConfig \<Rightarrow> real \<Rightarrow> real \<Rightarrow> PlanetMeshState \<Rightarrow> PlanetMeshState" where
  "PlanetMesh_useFrame config t delta s =
     \<lparr>orbitPosition =
        Vector3 (cos (currentAngle config t) * distance config) (vy (orbitPosition s))
          (sin (currentAngle config t) * distance config),
      rotationY = rotationY s + rotationSpeed config * delta\<rparr>"

section \<open>HeliocentricSystem: Earth, camera and transition lock\<close>

text \<open>
  The mutable state the component keeps in refs and in the scene: the refs
  \<open>orbitAngle\<close>, \<open>prevEarthPos\<close> and \<open>isTransitioning\<close>, the position of the Earth
  container, the spins of Earth and clouds, the position and up vector of the active
  camera (\<open>state.camera\<close>), and the target of the orbit controls. The camera with the ref
  and the orbit controls are rendered together, in the modes \<open>EARTH_FREE\<close> and
  \<open>SOLAR_SYSTEM\<close> only, so \<open>cameraRef.current && controlsRef.current\<close> is
  \<open>controlsTarget \<noteq> None\<close>. \<open>timerDue\<close> is the pending \<open>setTimeout\<close> of the mode-change
  effect, as the wall-clock time in milliseconds at which its callback is due. The
  camera's orientation (\<open>lookAt\<close>, \<open>controls.update()\<close>) is not part of the model.
\<close>

record HelioState =
  orbitAngle :: real
  prevEarthPos :: Vector3
  isTransitioning :: bool
  timerDue :: "nat option"
  earthContainerPosition :: Vector3
  earthGroupRotationY :: real
  cloudsRotationY :: real
  cameraPosition :: Vector3
  cameraUp :: Vector3
  controlsTarget :: "Vector3 option"

subsection \<open>The effect on a change of view mode or focus\<close>

text \<open>
  \<open>useEffect(..., [viewMode, focusedPlanet])\<close>: the body sets the lock and starts a
  timer of 100 ms (the clean-up of the previous run has cleared the old one); React runs
  it when one of the two dependencies has changed.
\<close>

definition TRANSITION_DELAY_MS :: nat where
  "TRANSITION_DELAY_MS = 100"

definition useEffect_transition :: "nat \<Rightarrow> HelioState \<Rightarrow> HelioState" where
  "useEffect_transition now s =
     s\<lparr>isTransitioning := True, timerDue := Some (now + TRANSITION_DELAY_MS)\<rparr>"

definition props_change ::
  "ViewMode \<times> string option \<Rightarrow> ViewMode \<times> string option \<Rightarrow> nat \<Rightarrow> HelioState \<Rightarrow> HelioState" where
  "props_change old new now s = (if new \<noteq> old then useEffect_transition now s else s)"

text \<open>The callback of the timer: it unlocks, then snaps the camera in two of the modes.\<close>

definition transition_timeout :: "ViewMode \<Rightarrow> string option \<Rightarrow> HelioState \<Rightarrow> HelioState" where
  "transition_timeout viewMode focusedPlanet s =
     (let s1 = s\<lparr>isTransitioning := False\<rparr>
      in case controlsTarget s1 of
           None \<Rightarrow> s1
         | Some target \<Rightarrow>
             if viewMode = EARTH_FREE then
               (let earthPos = earthContainerPosition s1
                in s1\<lparr>cameraPosition := Vector3 (vx earthPos) (vy earthPos + 6) (vz earthPos + 18),
                      controlsTarget := Some earthPos\<rparr>)
             else if viewMode = SOLAR_SYSTEM \<and> \<not> truthy focusedPlanet then
               s1\<lparr>cameraPosition := Vector3 0 400 600, controlsTarget := Some (Vector3 0 0 0)\<rparr>
             else s1)"

text \<open>A timer runs its callback once its time has come, and then it is gone.\<close>

definition run_timer :: "ViewMode \<Rightarrow> string option \<Rightarrow> nat \<Rightarrow> HelioState \<Rightarrow> HelioState" where
  "run_timer viewMode focusedPlanet now s =
     (case timerDue s of
        None \<Rightarrow> s
      | Some due \<Rightarrow>
          if due \<le> now then transition_timeout viewMode focusedPlanet (s\<lparr>timerDue := None\<rparr>)
          else s)"

subsection \<open>The per-frame callback\<close>

text \<open>
  The planet the camera follows in the focus branch: Earth's current position, or the
  position recomputed from the configuration found by name, with the radius the camera
  distance is derived from (5 when nothing is found).
\<close>

definition focus_target :: "string \<Rightarrow> real \<Rightarrow> Vector3 \<Rightarrow> Vector3 option \<times> real" where
  "focus_target focusedPlanet t currentEarthPos =
     (if focusedPlanet = ''Earth'' then (Some currentEarthPos, EARTH_RADIUS)
      else case find (\<lambda>p. name p = focusedPlanet) PLANETS of
             None \<Rightarrow> (None, 5)
           | Some targetPlanet \<Rightarrow>
               (let angle = startAngle targetPlanet + t * speed targetPlanet;
                    pX = cos angle * distance targetPlanet;
                    pZ = sin angle * distance targetPlanet
                in (Some (Vector3 pX 0 pZ), radius targetPlanet)))"

text \<open>Step 3 of the callback, \<open>CAMERA TRACKING LOGIC\<close>.\<close>

definition camera_tracking ::
  "ViewMode \<Rightarrow> string option \<Rightarrow> real \<Rightarrow> Vector3 \<Rightarrow> Vector3 \<Rightarrow> HelioState \<Rightarrow> HelioState" where
  "camera_tracking viewMode focusedPlanet elapsedTime currentEarthPos posDelta s =
     (if viewMode = EARTH_FREE \<and> \<not> isTransitioning s then
        (case controlsTarget s of
           None \<Rightarrow> s
         | Some target \<Rightarrow>
             (let camPos = Vector3_add (cameraPosition s) posDelta;
                  target1 = Vector3_add target posDelta;
                  dist = Vector3_distanceTo camPos currentEarthPos
              in if dist > 300 then
                   s\<lparr>cameraPosition := Vector3_add currentEarthPos (Vector3 0 10 40),
                     controlsTarget := Some currentEarthPos\<rparr>
                 else s\<lparr>cameraPosition := camPos, controlsTarget := Some target1\<rparr>))
      else if viewMode = SOLAR_SYSTEM \<and> truthy focusedPlanet then
        (case focusedPlanet of
           None \<Rightarrow> s
         | Some planetName \<Rightarrow>
             (case focus_target planetName elapsedTime currentEarthPos of
                (None, targetRadius) \<Rightarrow> s
              | (Some targetPos, targetRadius) \<Rightarrow>
                  (case controlsTarget s of
                     None \<Rightarrow> s
                   | Some target \<Rightarrow>
                       (let target1 = Vector3_lerp target targetPos 0.1;
                            offset = Vector3_sub (cameraPosition s) target1;
                            idealDist = targetRadius * 6 + 10;
                            offset1 = (if Vector3_length offset > idealDist * 2
                                       then Vector3_setLength offset idealDist else offset)
                        in s\<lparr>controlsTarget := Some target1,
                              cameraPosition :=
                                Vector3_lerp (cameraPosition s)
                                  (Vector3_add targetPos offset1) 0.1\<rparr>))))
      else s)"

text \<open>Step 7 of the callback, \<open>OTHER CAMERA MODES (Cinematic/Fixed)\<close>.\<close>

definition other_camera_modes :: "ViewMode \<Rightarrow> real \<Rightarrow> Vector3 \<Rightarrow> HelioState \<Rightarrow> HelioState" where
  "other_camera_modes viewMode elapsedTime currentEarthPos s =
     (if viewMode \<noteq> EARTH_FREE \<and> viewMode \<noteq> SOLAR_SYSTEM then
        (if viewMode = SYSTEM_AUTO then
           (let t = elapsedTime * 0.1;
                sweepRadius = 350;
                centerX = - FOCAL_OFFSET;
                camX = centerX + sweepRadius * cos t;
                camZ = sweepRadius * sin (2 * t);
                camY = 100 + 40 * sin t;
                targetPos = Vector3 camX camY camZ
            in s\<lparr>cameraPosition := Vector3_lerp (cameraPosition s) targetPos 0.05\<rparr>)
         else if viewMode = SYSTEM_TOP then
           (let targetPos = Vector3 (- FOCAL_OFFSET) 600 0
            in s\<lparr>cameraPosition := Vector3_lerp (cameraPosition s) targetPos 0.05,
                  cameraUp := Vector3 0 0 (- 1)\<rparr>)
         else if viewMode = EARTH_DAY then
           (let sunDirection = Vector3_normalize (Vector3_sub (Vector3 0 0 0) currentEarthPos);
                offsetDist = 35;
                camPos = Vector3_add currentEarthPos (Vector3_multiplyScalar sunDirection offsetDist);
                camPos1 = Vector3 (vx camPos) (vy camPos + 5) (vz camPos)
            in s\<lparr>cameraPosition := camPos1, cameraUp := Vector3 0 1 0\<rparr>)
         else if viewMode = EARTH_NIGHT then
           (let sunDirection = Vector3_normalize (Vector3_sub (Vector3 0 0 0) currentEarthPos);
                offsetDist = 35;
                camPos = Vector3_sub currentEarthPos (Vector3_multiplyScalar sunDirection offsetDist);
                camPos1 = Vector3 (vx camPos) (vy camPos + 5) (vz camPos)
            in s\<lparr>cameraPosition := camPos1, cameraUp := Vector3 0 1 0\<rparr>)
         else s)
      else s)"

text \<open>
  The whole callback, in the order of the source: Earth's orbit (1), the movement since
  the last frame (2), camera tracking (3), Earth's and the clouds' spin (4, 5), the other
  camera modes (7) and the update of \<open>prevEarthPos\<close>. Step 6 writes a shader uniform
  from the scene's matrices and is left out.
\<close>

definition HeliocentricSystem_useFrame ::
  "ViewMode \<Rightarrow> string option \<Rightarrow> real \<Rightarrow> real \<Rightarrow> HelioState \<Rightarrow> HelioState" where
  "HeliocentricSystem_useFrame viewMode focusedPlanet elapsedTime delta s =
     (let safeDelta = min delta 0.05;
          orbitAngle1 = orbitAngle s + safeDelta * EARTH_YEAR_SPEED;
          x = - FOCAL_OFFSET + SEMI_MAJOR_AXIS * cos orbitAngle1;
          z = SEMI_MINOR_AXIS * sin orbitAngle1;
          currentEarthPos = Vector3 x 0 z;
          s1 = s\<lparr>orbitAngle := orbitAngle1, earthContainerPosition := currentEarthPos\<rparr>;
          posDelta = Vector3_sub currentEarthPos (prevEarthPos s1);
          s2 = camera_tracking viewMode focusedPlanet elapsedTime currentEarthPos posDelta s1;
          s3 = s2\<lparr>earthGroupRotationY := earthGroupRotationY s2 + safeDelta * EARTH_ROTATION_SPEED,
                  cloudsRotationY :=
                    cloudsRotationY s2 + safeDelta * (EARTH_ROTATION_SPEED * 1.0625)\<rparr>;
          s4 = other_camera_modes viewMode elapsedTime currentEarthPos s3
      in s4\<lparr>prevEarthPos := currentEarthPos\<rparr>)"

text \<open>
  A run of frames, each with its elapsed time and its \<open>delta\<close>: the states after the
  first frame, after the second, and so on.
\<close>

fun run_frames ::
  "ViewMode \<Rightarrow> string option \<Rightarrow> (real \<times> real) list \<Rightarrow> HelioState \<Rightarrow> HelioState list" where
  "run_frames viewMode focusedPlanet [] s = []"
| "run_frames viewMode focusedPlanet ((elapsedTime, delta) # frames) s =
     (let s1 = HeliocentricSystem_useFrame viewMode focusedPlanet elapsedTime delta s
      in s1 # run_frames viewMode focusedPlanet frames s1)"

text \<open>
  The state at mount, in the initial mode \<open>EARTH_FREE\<close>: the refs as they are
  initialised, Earth's container at its \<open>position\<close> prop, and the camera with the ref
  and the orbit controls as three.js creates them (the camera has no \<open>position\<close> prop
  and is at the origin, looking up along \<open>y\<close>; the target of the controls is the origin).
\<close>

definition HelioState_init :: HelioState where
  "HelioState_init =
     \<lparr>orbitAngle = 0,
      prevEarthPos = Vector3 (SEMI_MAJOR_AXIS - FOCAL_OFFSET) 0 0,
      isTransitioning = False,
      timerDue = None,
      earthContainerPosition = Vector3 (SEMI_MAJOR_AXIS - FOCAL_OFFSET) 0 0,
      earthGroupRotationY = 0,
      cloudsRotationY = 0,
      cameraPosition = Vector3 0 0 0,
      cameraUp = Vector3 0 1 0,
      controlsTarget = Some (Vector3 0 0 0)\<rparr>"

text \<open>
  The ellipse drawn as Earth's orbit path: \<open>EllipseCurve(-FOCAL_OFFSET, 0,
  SEMI_MAJOR_AXIS, SEMI_MINOR_AXIS, ...)\<close>, laid in the plane of \<open>x\<close> and \<open>z\<close>.
\<close>

definition on_orbit_ellipse :: "Vector3 \<Rightarrow> bool" where
  "on_orbit_ellipse p =
     (((vx p - (- FOCAL_OFFSET)) / SEMI_MAJOR_AXIS)\<^sup>2 + (vz p / SEMI_MINOR_AXIS)\<^sup>2 = 1)"

section \<open>Properties of the Kaamos viewer\<close>

lemma getSunlightHours_Utsjoki_December: "getSunlightHours 70 11 = 0"
  by (simp add: getSunlightHours_def Let_def)

lemma getSunlightHours_Utsjoki_June: "getSunlightHours 70 5 = 24"
  by (simp add: getSunlightHours_def Let_def)

text \<open>
  Claim C10. For every latitude and every month index (0 to 11 among them) the sunlight
  hours lie in the closed interval from 0 to 24; the status text
  \<open>KAAMOS (Polar Night)\<close> is rendered exactly when the hours are 0, and \<open>MIDNIGHT SUN\<close>
  exactly when they are 24.
\<close>

theorem sunlight_hours_clamped_and_status:
  "0 \<le> getSunlightHours lat monthIndex \<and> getSunlightHours lat monthIndex \<le> 24 \<and>
   (''KAAMOS (Polar Night)'' \<in> set (statusText lat monthIndex)
      \<longleftrightarrow> getSunlightHours lat monthIndex = 0) \<and>
   (''MIDNIGHT SUN'' \<in> set (statusText lat monthIndex)
      \<longleftrightarrow> getSunlightHours lat monthIndex = 24)"
proof -
  define h0 where "h0 = 12 + (cos (((monthIndex - 5) / 12) * 2 * pi) * 12 * ((lat - 50) / 20))"
  have e: "getSunlightHours lat monthIndex =
      (if (if h0 > 24 then 24 else h0) < 0 then 0 else (if h0 > 24 then 24 else h0))"
    unfolding getSunlightHours_def Let_def h0_def by (rule refl)
  show ?thesis
    unfolding statusText_def Let_def isKaamos_def isMidnightSun_def e by auto
qed

section \<open>Properties of the shadow length\<close>

lemma acute_angle_cos_sin:
  assumes "5 < h" "h < 90"
  shows "0 < cos (h * pi / 180)" "0 < sin (h * pi / 180)"
proof -
  have a: "0 < h * pi / 180" using assms by simp
  have b: "h * pi / 180 < pi / 2" using assms by simp
  have c: "- (pi / 2) < h * pi / 180" using a pi_gt_zero by linarith
  show "0 < cos (h * pi / 180)" using c b by (rule cos_gt_zero_pi)
  show "0 < sin (h * pi / 180)" using a b by (intro sin_gt_zero) auto
qed

lemma shadowLength_45: "shadowLength 45 = Num 100"
proof -
  have "(45 * pi) / 180 = pi / 4" by simp
  then show ?thesis
    by (simp add: shadowLength_def Math_tan_def Let_def cos_45 sin_45)
qed

lemma shadowLength_90: "shadowLength 90 = Num 0"
proof -
  have "(90 * pi) / 180 = pi / 2" by simp
  then show ?thesis
    by (simp add: shadowLength_def Math_tan_def Let_def)
qed

lemma shadowLength_between:
  assumes "5 < h" "h < 90"
  shows "\<exists>v. shadowLength h = Num v \<and> 0 < v"
  using acute_angle_cos_sin[OF assms] assms
  by (simp add: shadowLength_def Math_tan_def Let_def)

text \<open>
  Claim C8. At a sun altitude of 45 degrees the shadow length is the height the formula
  uses for the object (the numerator 100); at every altitude of at most 5 degrees it is
  the maximum 600; and at every altitude of the slider's range, from 5 to 90 degrees, it
  is a finite number and not negative: never an infinity, NaN or a negative length.
\<close>

theorem shadow_length_45_clamped_finite:
  "shadowLength 45 = Num 100 \<and>
   (\<forall>h. h \<le> 5 \<longrightarrow> shadowLength h = Num 600) \<and>
   (\<forall>h. 5 \<le> h \<and> h \<le> 90 \<longrightarrow> (\<exists>v. shadowLength h = Num v \<and> 0 \<le> v))"
proof (intro conjI allI impI)
  show "shadowLength 45 = Num 100" by (rule shadowLength_45)
next
  fix h :: real assume "h \<le> 5"
  then show "shadowLength h = Num 600" by (simp add: shadowLength_def)
next
  fix h :: real assume h: "5 \<le> h \<and> h \<le> 90"
  consider "h = 5" | "5 < h" "h < 90" | "h = 90" using h by linarith
  then show "\<exists>v. shadowLength h = Num v \<and> 0 \<le> v"
  proof cases
    case 1 then show ?thesis by (simp add: shadowLength_def)
  next
    case 2 then show ?thesis using shadowLength_between[of h] by auto
  next
    case 3 then show ?thesis by (simp add: shadowLength_90)
  qed
qed

theorem shadow_length_45_clamped_finite_witness:
  "(3::real) \<le> 5 \<and> shadowLength 3 = Num 600 \<and>
   (5::real) \<le> 60 \<and> (60::real) \<le> 90 \<and> (\<exists>v. shadowLength 60 = Num v \<and> 0 \<le> v)"
proof -
  have a: "(3::real) \<le> 5" and b: "(5::real) \<le> 60 \<and> (60::real) \<le> 90" by simp_all
  from shadow_length_45_clamped_finite
  have low: "\<forall>h. h \<le> 5 \<longrightarrow> shadowLength h = Num 600"
    and mid: "\<forall>h. 5 \<le> h \<and> h \<le> 90 \<longrightarrow> (\<exists>v. shadowLength h = Num v \<and> 0 \<le> v)"
    by blast+
  from low a have "shadowLength 3 = Num 600" by blast
  moreover from mid b have "\<exists>v. shadowLength 60 = Num v \<and> 0 \<le> v" by blast
  ultimately show ?thesis using a b by blast
qed

section \<open>Properties of the planets\<close>

lemma find_distinct:
  "distinct (map f xs) \<Longrightarrow> x \<in> set xs \<Longrightarrow> find (\<lambda>p. f p = f x) xs = Some x"
  by (induction xs) (auto simp: image_iff)

lemma planet_names:
  "map name PLANETS =
     [''Mercury'', ''Venus'', ''Mars'', ''Jupiter'', ''Saturn'', ''Uranus'', ''Neptune'']"
  by (simp add: PLANETS_def)

lemma find_planet:
  assumes "cfg \<in> set PLANETS"
  shows "find (\<lambda>p. name p = name cfg) PLANETS = Some cfg" and "name cfg \<noteq> ''Earth''"
proof -
  have "distinct (map name PLANETS)" unfolding planet_names by simp
  then show "find (\<lambda>p. name p = name cfg) PLANETS = Some cfg"
    using assms by (rule find_distinct)
  have "name cfg \<in> set (map name PLANETS)" using assms by simp
  then show "name cfg \<noteq> ''Earth''" unfolding planet_names by auto
qed

lemma length_PLANETS: "length PLANETS = 7"
  by (simp add: PLANETS_def)

lemma Venus_in_PLANETS: "PLANETS ! 1 \<in> set PLANETS"
  by (rule nth_mem) (simp add: length_PLANETS)

lemma Venus_name: "name (PLANETS ! 1) = ''Venus''"
proof -
  have "name (PLANETS ! 1) = map name PLANETS ! 1"
    by (simp add: length_PLANETS)
  then show ?thesis unfolding planet_names by simp
qed

text \<open>
  Claim C1. For every planet of \<open>PLANETS\<close> (every planet other than Earth) and every
  elapsed time \<open>t\<close>, the position the planet's own per-frame update gives to its group
  is the position the camera's focus tracking recomputes for the planet of that name at
  the same \<open>t\<close>. The planet's update never writes the \<open>y\<close> of the group, which is 0 from
  the start; the camera's formula uses the constant 0.
\<close>

theorem planet_position_agrees_with_focus_tracking:
  assumes "config \<in> set PLANETS" and "vy (orbitPosition s) = 0"
  shows "fst (focus_target (name config) t currentEarthPos) =
           Some (orbitPosition (PlanetMesh_useFrame config t delta s))"
  using find_planet[OF assms(1)] assms(2)
  by (simp add: focus_target_def PlanetMesh_useFrame_def currentAngle_def Let_def)

theorem planet_position_agrees_with_focus_tracking_witness:
  "PLANETS ! 1 \<in> set PLANETS \<and> vy (orbitPosition PlanetMesh_init) = 0 \<and>
   fst (focus_target ''Venus'' 10 (Vector3 170 0 0)) =
     Some (orbitPosition (PlanetMesh_useFrame (PLANETS ! 1) 10 0.016 PlanetMesh_init))"
proof -
  have b: "vy (orbitPosition PlanetMesh_init) = 0" by (simp add: PlanetMesh_init_def)
  show ?thesis
    using planet_position_agrees_with_focus_tracking
            [OF Venus_in_PLANETS b, of 10 "Vector3 170 0 0" "0.016"]
          Venus_in_PLANETS b
    unfolding Venus_name by simp
qed

lemma Venus_speeds: "rotationSpeed (PLANETS ! 1) < 0" "0 < speed (PLANETS ! 1)"
  by (simp_all add: PLANETS_def BASE_ROTATION_SPEED_def BASE_ORBIT_SPEED_def)

lemma Uranus_speeds: "rotationSpeed (PLANETS ! 5) < 0" "0 < speed (PLANETS ! 5)"
  by (simp_all add: PLANETS_def BASE_ROTATION_SPEED_def BASE_ORBIT_SPEED_def)

text \<open>
  Claim C9. For a body with a negative rotation speed and a positive orbital speed (Venus
  and Uranus are such bodies, see \<open>Venus_speeds\<close> and \<open>Uranus_speeds\<close>) and a positive
  frame delta, the update is the unmodified \<open>angle + speed * delta\<close> for the spin and for
  the orbital angle alike; the spin strictly decreases and the orbital angle strictly
  increases.
\<close>

theorem retrograde_rotation_decreases_orbit_increases:
  assumes "rotationSpeed config < 0" and "0 < speed config" and "0 < delta"
  shows "rotationY (PlanetMesh_useFrame config t delta s) =
           rotationY s + rotationSpeed config * delta \<and>
         rotationY (PlanetMesh_useFrame config t delta s) < rotationY s \<and>
         currentAngle config (t + delta) = currentAngle config t + speed config * delta \<and>
         currentAngle config t < currentAngle config (t + delta)"
proof -
  have "rotationSpeed config * delta < 0" using assms(1,3) by (simp add: mult_neg_pos)
  moreover have "0 < speed config * delta" using assms(2,3) by simp
  ultimately show ?thesis
    by (simp add: PlanetMesh_useFrame_def currentAngle_def algebra_simps)
qed

theorem retrograde_rotation_decreases_orbit_increases_witness:
  "rotationSpeed (PLANETS ! 1) < 0 \<and> 0 < speed (PLANETS ! 1) \<and> (0::real) < 0.016 \<and>
   rotationY (PlanetMesh_useFrame (PLANETS ! 1) 10 0.016 PlanetMesh_init)
     < rotationY PlanetMesh_init \<and>
   currentAngle (PLANETS ! 1) 10 < currentAngle (PLANETS ! 1) (10 + 0.016)"
proof -
  have d: "(0::real) < 0.016" by simp
  show ?thesis
    using retrograde_rotation_decreases_orbit_increases
            [OF Venus_speeds d, of 10 PlanetMesh_init]
          Venus_speeds d
    by blast
qed

section \<open>Properties of the quiz content lookup\<close>

lemma kaamos_topic_has_keyword: "sublist ''kaamos'' (toLowerCase ''kaamos polar night'')"
  by code_simp

lemma unrelated_topic_has_no_keyword:
  "\<forall>key \<in> set (map fst TOPIC_MAP). \<not> sublist key (toLowerCase ''unrelated xyz'')"
  by code_simp

text \<open>
  Claim C7. \<open>generateQuizQuestions\<close> returns a list for every topic, and never the empty
  one: the Kaamos questions when the lower-cased topic contains \<open>kaamos\<close> or \<open>polar\<close>, the
  default questions when it contains none of the keys of \<open>TOPIC_MAP\<close>. (The count is
  ignored, as in the source.)
\<close>

theorem quiz_lookup_total_and_nonempty:
  "(sublist ''kaamos'' (toLowerCase topic) \<or> sublist ''polar'' (toLowerCase topic)
      \<longrightarrow> generateQuizQuestions topic count = Some KAAMOS_QUESTIONS) \<and>
   ((\<forall>key \<in> set (map fst TOPIC_MAP). \<not> sublist key (toLowerCase topic))
      \<longrightarrow> generateQuizQuestions topic count = Some DEFAULT_QUESTIONS) \<and>
   (\<exists>qs. generateQuizQuestions topic count = Some qs \<and> qs \<noteq> [])"
proof (intro conjI impI)
  assume "sublist ''kaamos'' (toLowerCase topic) \<or> sublist ''polar'' (toLowerCase topic)"
  then show "generateQuizQuestions topic count = Some KAAMOS_QUESTIONS"
    by (auto simp: generateQuizQuestions_def TOPIC_MAP_def Let_def)
next
  assume "\<forall>key \<in> set (map fst TOPIC_MAP). \<not> sublist key (toLowerCase topic)"
  then show "generateQuizQuestions topic count = Some DEFAULT_QUESTIONS"
    by (simp add: generateQuizQuestions_def TOPIC_MAP_def Let_def)
next
  show "\<exists>qs. generateQuizQuestions topic count = Some qs \<and> qs \<noteq> []"
    by (simp add: generateQuizQuestions_def TOPIC_MAP_def Let_def
          KAAMOS_QUESTIONS_def SHADOW_QUESTIONS_def DEFAULT_QUESTIONS_def)
qed

theorem quiz_lookup_total_and_nonempty_witness:
  "sublist ''kaamos'' (toLowerCase ''kaamos polar night'') \<and>
   generateQuizQuestions ''kaamos polar night'' 3 = Some KAAMOS_QUESTIONS \<and>
   list_all (\<lambda>key. \<not> sublist key (toLowerCase ''unrelated xyz'')) (map fst TOPIC_MAP) \<and>
   generateQuizQuestions ''unrelated xyz'' 3 = Some DEFAULT_QUESTIONS"
proof -
  have "generateQuizQuestions ''kaamos polar night'' 3 = Some KAAMOS_QUESTIONS"
    using quiz_lookup_total_and_nonempty[of "''kaamos polar night''" 3]
      kaamos_topic_has_keyword by blast
  moreover have "generateQuizQuestions ''unrelated xyz'' 3 = Some DEFAULT_QUESTIONS"
    using quiz_lookup_total_and_nonempty[of "''unrelated xyz''" 3]
      unrelated_topic_has_no_keyword by blast
  ultimately show ?thesis
    using kaamos_topic_has_keyword unrelated_topic_has_no_keyword
    by (simp add: list_all_iff)
qed

section \<open>Properties of the day factor\<close>

lemma hermite_mono:
  fixes s t :: real
  assumes "0 \<le> s" "s \<le> t" "t \<le> 1"
  shows "s * s * (3 - 2 * s) \<le> t * t * (3 - 2 * t)"
proof -
  have "t * t * (3 - 2 * t) - s * s * (3 - 2 * s) =
          (t - s) * (t * (3 - 2 * t - s) + s * (3 - 2 * s - t))"
    by (simp add: algebra_simps)
  moreover have "0 \<le> (t - s) * (t * (3 - 2 * t - s) + s * (3 - 2 * s - t))"
    using assms by (intro mult_nonneg_nonneg add_nonneg_nonneg) auto
  ultimately show ?thesis by linarith
qed

lemma hermite_strict:
  fixes t :: real
  assumes "0 < t" "t < 1"
  shows "0 < t * t * (3 - 2 * t)" "t * t * (3 - 2 * t) < 1"
proof -
  show "0 < t * t * (3 - 2 * t)" using assms by simp
  have "1 - t * t * (3 - 2 * t) = (1 - t) * (1 - t) * (1 + 2 * t)"
    by (simp add: algebra_simps)
  moreover have "0 < (1 - t) * (1 - t) * (1 + 2 * t)" using assms by simp
  ultimately show "t * t * (3 - 2 * t) < 1" by linarith
qed

lemma clamp_unit: "0 \<le> clamp v 0 1" "clamp v 0 1 \<le> 1"
  by (simp_all add: clamp_def)

lemma clamp_mono: "u \<le> v \<Longrightarrow> clamp u lo hi \<le> clamp v lo hi"
  by (auto simp: clamp_def min_def max_def)

lemma smoothstep_mono:
  assumes "edge0 < edge1" "u \<le> v"
  shows "smoothstep edge0 edge1 u \<le> smoothstep edge0 edge1 v"
proof -
  have "(u - edge0) / (edge1 - edge0) \<le> (v - edge0) / (edge1 - edge0)"
    using assms by (simp add: divide_right_mono)
  then have "clamp ((u - edge0) / (edge1 - edge0)) 0 1 \<le> clamp ((v - edge0) / (edge1 - edge0)) 0 1"
    by (rule clamp_mono)
  then show ?thesis
    unfolding smoothstep_def Let_def
    by (intro hermite_mono clamp_unit)
qed

lemma smoothstep_low:
  assumes "edge0 < edge1" "v \<le> edge0"
  shows "smoothstep edge0 edge1 v = 0"
proof -
  have "(v - edge0) / (edge1 - edge0) \<le> 0"
    using assms by (simp add: divide_nonpos_pos)
  then show ?thesis by (simp add: smoothstep_def clamp_def Let_def max_def)
qed

lemma smoothstep_high:
  assumes "edge0 < edge1" "edge1 \<le> v"
  shows "smoothstep edge0 edge1 v = 1"
proof -
  have "1 \<le> (v - edge0) / (edge1 - edge0)"
    using assms by (simp add: le_divide_eq)
  then show ?thesis by (simp add: smoothstep_def clamp_def Let_def min_def max_def)
qed

lemma smoothstep_inside:
  assumes "edge0 < v" "v < edge1"
  shows "0 < smoothstep edge0 edge1 v" "smoothstep edge0 edge1 v < 1"
proof -
  let ?t = "(v - edge0) / (edge1 - edge0)"
  have a: "0 < ?t" using assms by simp
  have b: "?t < 1" using assms by (simp add: divide_less_eq)
  have c: "clamp ?t 0 1 = ?t" using a b by (simp add: clamp_def min_def max_def)
  show "0 < smoothstep edge0 edge1 v" "smoothstep edge0 edge1 v < 1"
    unfolding smoothstep_def Let_def c using hermite_strict[OF a b] by simp_all
qed

lemma smoothstep_continuous:
  assumes "edge0 < edge1"
  shows "continuous_on UNIV (smoothstep edge0 edge1)"
proof -
  have "continuous_on UNIV (\<lambda>v. smoothstep edge0 edge1 v)"
    unfolding smoothstep_def clamp_def Let_def using assms
    by (intro continuous_intros continuous_on_min continuous_on_max) auto
  then show ?thesis by simp
qed

lemma smoothstep_band:
  assumes "edge0 < edge1"
  shows "{v. 0 < smoothstep edge0 edge1 v \<and> smoothstep edge0 edge1 v < 1} = {edge0 <..< edge1}"
proof (intro set_eqI iffI)
  fix v assume "v \<in> {v. 0 < smoothstep edge0 edge1 v \<and> smoothstep edge0 edge1 v < 1}"
  then have p: "0 < smoothstep edge0 edge1 v" "smoothstep edge0 edge1 v < 1" by simp_all
  have "\<not> v \<le> edge0" using smoothstep_low[OF assms, of v] p by auto
  moreover have "\<not> edge1 \<le> v" using smoothstep_high[OF assms, of v] p by auto
  ultimately show "v \<in> {edge0 <..< edge1}" by simp
next
  fix v assume "v \<in> {edge0 <..< edge1}"
  then show "v \<in> {v. 0 < smoothstep edge0 edge1 v \<and> smoothstep edge0 edge1 v < 1}"
    using smoothstep_inside[of edge0 v edge1] by simp
qed

text \<open>
  Claim C4. In both fragment shaders the day factor is a continuous and monotonically
  non-decreasing function of the dot product, 0 at and below the lower threshold and 1 at
  and above the upper one. The band on which it is strictly between 0 and 1 is the open
  interval from -0.2 to 0.2 for Earth and from -0.02 to 0.02 for the Moon, and the Moon's
  band is a proper part of Earth's.
\<close>

theorem day_factor_continuous_monotone_bands:
  "continuous_on UNIV earth_dayFactor \<and> mono earth_dayFactor \<and>
   (\<forall>d. d \<le> - 0.2 \<longrightarrow> earth_dayFactor d = 0) \<and>
   (\<forall>d. 0.2 \<le> d \<longrightarrow> earth_dayFactor d = 1) \<and>
   continuous_on UNIV moon_dayFactor \<and> mono moon_dayFactor \<and>
   (\<forall>d. d \<le> - 0.02 \<longrightarrow> moon_dayFactor d = 0) \<and>
   (\<forall>d. 0.02 \<le> d \<longrightarrow> moon_dayFactor d = 1) \<and>
   {d. 0 < earth_dayFactor d \<and> earth_dayFactor d < 1} = {- 0.2 <..< 0.2} \<and>
   {d. 0 < moon_dayFactor d \<and> moon_dayFactor d < 1} = {- 0.02 <..< 0.02} \<and>
   {d. 0 < moon_dayFactor d \<and> moon_dayFactor d < 1}
     \<subset> {d. 0 < earth_dayFactor d \<and> earth_dayFactor d < 1}"
proof -
  have e: "(- 0.2 :: real) < 0.2" and m: "(- 0.02 :: real) < 0.02" by simp_all
  have ef: "earth_dayFactor = smoothstep (- 0.2) 0.2"
    and mf: "moon_dayFactor = smoothstep (- 0.02) 0.02"
    by (auto simp: earth_dayFactor_def moon_dayFactor_def fun_eq_iff)
  have sub: "{- 0.02 <..< 0.02 :: real} \<subset> {- 0.2 <..< 0.2}"
  proof
    show "{- 0.02 <..< 0.02 :: real} \<subseteq> {- 0.2 <..< 0.2}" by auto
    have "(0.1::real) \<in> {- 0.2 <..< 0.2}" "(0.1::real) \<notin> {- 0.02 <..< 0.02}" by simp_all
    then show "{- 0.02 <..< 0.02 :: real} \<noteq> {- 0.2 <..< 0.2}" by blast
  qed
  show ?thesis
    unfolding ef mf smoothstep_band[OF e] smoothstep_band[OF m]
    using smoothstep_continuous[OF e] smoothstep_continuous[OF m]
      smoothstep_low[OF e] smoothstep_high[OF e] smoothstep_low[OF m] smoothstep_high[OF m]
      smoothstep_mono[OF e] smoothstep_mono[OF m] sub
    by (auto intro!: monoI)
qed

theorem day_factor_continuous_monotone_bands_witness:
  "(- 0.5 :: real) \<le> - 0.2 \<and> earth_dayFactor (- 0.5) = 0 \<and>
   (0.2 :: real) \<le> 0.7 \<and> earth_dayFactor 0.7 = 1 \<and>
   (- 0.1 :: real) \<le> - 0.02 \<and> moon_dayFactor (- 0.1) = 0 \<and>
   (0.02 :: real) \<le> 0.1 \<and> moon_dayFactor 0.1 = 1"
proof -
  have a: "(- 0.5 :: real) \<le> - 0.2" "(0.2 :: real) \<le> 0.7"
    "(- 0.1 :: real) \<le> - 0.02" "(0.02 :: real) \<le> 0.1"
    by simp_all
  from day_factor_continuous_monotone_bands have
    "\<forall>d. d \<le> - 0.2 \<longrightarrow> earth_dayFactor d = 0" "\<forall>d. 0.2 \<le> d \<longrightarrow> earth_dayFactor d = 1"
    "\<forall>d. d \<le> - 0.02 \<longrightarrow> moon_dayFactor d = 0" "\<forall>d. 0.02 \<le> d \<longrightarrow> moon_dayFactor d = 1"
    by blast+
  with a show ?thesis by blast
qed

section \<open>Properties of the frame callback: clock and orbit\<close>

lemma camera_tracking_keeps:
  "orbitAngle (camera_tracking vm fp t e pd s) = orbitAngle s"
  "earthContainerPosition (camera_tracking vm fp t e pd s) = earthContainerPosition s"
  "earthGroupRotationY (camera_tracking vm fp t e pd s) = earthGroupRotationY s"
  "cloudsRotationY (camera_tracking vm fp t e pd s) = cloudsRotationY s"
  "isTransitioning (camera_tracking vm fp t e pd s) = isTransitioning s"
  "timerDue (camera_tracking vm fp t e pd s) = timerDue s"
  "prevEarthPos (camera_tracking vm fp t e pd s) = prevEarthPos s"
  by (simp_all add: camera_tracking_def Let_def split: option.splits prod.splits)

lemma other_camera_modes_keeps:
  "orbitAngle (other_camera_modes vm t e s) = orbitAngle s"
  "earthContainerPosition (other_camera_modes vm t e s) = earthContainerPosition s"
  "earthGroupRotationY (other_camera_modes vm t e s) = earthGroupRotationY s"
  "cloudsRotationY (other_camera_modes vm t e s) = cloudsRotationY s"
  "isTransitioning (other_camera_modes vm t e s) = isTransitioning s"
  "timerDue (other_camera_modes vm t e s) = timerDue s"
  "prevEarthPos (other_camera_modes vm t e s) = prevEarthPos s"
  "controlsTarget (other_camera_modes vm t e s) = controlsTarget s"
  by (simp_all add: other_camera_modes_def Let_def)

lemma useFrame_orbitAngle:
  "orbitAngle (HeliocentricSystem_useFrame vm fp t d s) =
     orbitAngle s + min d 0.05 * EARTH_YEAR_SPEED"
  by (simp add: HeliocentricSystem_useFrame_def Let_def camera_tracking_keeps other_camera_modes_keeps)

lemma useFrame_earthGroupRotationY:
  "earthGroupRotationY (HeliocentricSystem_useFrame vm fp t d s) =
     earthGroupRotationY s + min d 0.05 * EARTH_ROTATION_SPEED"
  by (simp add: HeliocentricSystem_useFrame_def Let_def camera_tracking_keeps other_camera_modes_keeps)

lemma useFrame_cloudsRotationY:
  "cloudsRotationY (HeliocentricSystem_useFrame vm fp t d s) =
     cloudsRotationY s + min d 0.05 * (EARTH_ROTATION_SPEED * 1.0625)"
  by (simp add: HeliocentricSystem_useFrame_def Let_def camera_tracking_keeps other_camera_modes_keeps)

lemma useFrame_earthContainerPosition:
  "earthContainerPosition (HeliocentricSystem_useFrame vm fp t d s) =
     Vector3 (- FOCAL_OFFSET + SEMI_MAJOR_AXIS * cos (orbitAngle s + min d 0.05 * EARTH_YEAR_SPEED)) 0
       (SEMI_MINOR_AXIS * sin (orbitAngle s + min d 0.05 * EARTH_YEAR_SPEED))"
  by (simp add: HeliocentricSystem_useFrame_def Let_def camera_tracking_keeps other_camera_modes_keeps)

lemma useFrame_lock:
  "isTransitioning (HeliocentricSystem_useFrame vm fp t d s) = isTransitioning s"
  "timerDue (HeliocentricSystem_useFrame vm fp t d s) = timerDue s"
  by (simp_all add: HeliocentricSystem_useFrame_def Let_def camera_tracking_keeps other_camera_modes_keeps)

lemma ellipse_point:
  "on_orbit_ellipse (Vector3 (- FOCAL_OFFSET + SEMI_MAJOR_AXIS * cos a) y (SEMI_MINOR_AXIS * sin a))"
  by (simp add: on_orbit_ellipse_def FOCAL_OFFSET_def SEMI_MAJOR_AXIS_def SEMI_MINOR_AXIS_def)

lemma useFrame_on_ellipse:
  "on_orbit_ellipse (earthContainerPosition (HeliocentricSystem_useFrame vm fp t d s))"
  unfolding useFrame_earthContainerPosition by (rule ellipse_point)

lemma run_frames_ge:
  assumes "\<forall>(t, d) \<in> set frames. 0 < d \<and> d < 0.05"
  shows "\<forall>s' \<in> set (run_frames vm fp frames s). orbitAngle s \<le> orbitAngle s'"
  using assms
proof (induction frames arbitrary: s)
  case Nil
  then show ?case by simp
next
  case (Cons f frames)
  obtain t d where f: "f = (t, d)" by (cases f)
  let ?s1 = "HeliocentricSystem_useFrame vm fp t d s"
  have d: "0 < d" using Cons.prems f by simp
  have step: "orbitAngle s \<le> orbitAngle ?s1"
    using d by (simp add: useFrame_orbitAngle EARTH_YEAR_SPEED_def BASE_ORBIT_SPEED_def)
  have "\<forall>s' \<in> set (run_frames vm fp frames ?s1). orbitAngle ?s1 \<le> orbitAngle s'"
    using Cons.IH Cons.prems by simp
  with step show ?case by (auto simp: f Let_def)
qed

lemma run_frames_sorted:
  assumes "\<forall>(t, d) \<in> set frames. 0 < d \<and> d < 0.05"
  shows "sorted (map orbitAngle (s # run_frames vm fp frames s))"
  using assms
proof (induction frames arbitrary: s)
  case Nil
  then show ?case by simp
next
  case (Cons f frames)
  obtain t d where f: "f = (t, d)" by (cases f)
  let ?s1 = "HeliocentricSystem_useFrame vm fp t d s"
  have "sorted (map orbitAngle (?s1 # run_frames vm fp frames ?s1))"
    using Cons.IH Cons.prems by simp
  moreover have "\<forall>s' \<in> set (run_frames vm fp (f # frames) s). orbitAngle s \<le> orbitAngle s'"
    using run_frames_ge[OF Cons.prems] .
  ultimately show ?case by (simp add: f Let_def)
qed

lemma run_frames_on_ellipse:
  "\<forall>s' \<in> set (run_frames vm fp frames s). on_orbit_ellipse (earthContainerPosition s')"
proof (induction frames arbitrary: s)
  case Nil
  then show ?case by simp
next
  case (Cons f frames)
  obtain t d where f: "f = (t, d)" by (cases f)
  show ?case using Cons.IH by (simp add: f Let_def useFrame_on_ellipse)
qed

text \<open>
  Claim C3. Over every run of frames whose deltas are positive and below the cap 0.05,
  Earth's orbit angle never decreases from one frame to the next, and after every frame
  Earth's position satisfies the equation of the ellipse with centre offset
  \<open>-FOCAL_OFFSET\<close> and semi-axes \<open>SEMI_MAJOR_AXIS\<close> and \<open>SEMI_MINOR_AXIS\<close> (exactly, over
  the reals).
\<close>

theorem earth_orbit_angle_monotone_on_ellipse:
  assumes "\<forall>(t, d) \<in> set frames. 0 < d \<and> d < 0.05"
  shows "sorted (map orbitAngle (s # run_frames viewMode focusedPlanet frames s)) \<and>
         (\<forall>s' \<in> set (run_frames viewMode focusedPlanet frames s).
            on_orbit_ellipse (earthContainerPosition s'))"
  using run_frames_sorted[OF assms] run_frames_on_ellipse by blast

theorem earth_orbit_angle_monotone_on_ellipse_witness:
  "(0 < (0.016::real) \<and> (0.016::real) < 0.05) \<and> (0 < (0.02::real) \<and> (0.02::real) < 0.05) \<and>
   sorted (map orbitAngle
     (HelioState_init #
        run_frames EARTH_FREE None [(0.016, 0.016), (0.036, 0.02)] HelioState_init)) \<and>
   list_all (\<lambda>s'. on_orbit_ellipse (earthContainerPosition s'))
     (run_frames EARTH_FREE None [(0.016, 0.016), (0.036, 0.02)] HelioState_init)"
proof -
  have h: "\<forall>(t, d) \<in> set [(0.016::real, 0.016::real), (0.036, 0.02)]. 0 < d \<and> d < 0.05"
    by simp
  show ?thesis
    using earth_orbit_angle_monotone_on_ellipse[OF h, of HelioState_init EARTH_FREE None]
    by (simp add: list_all_iff)
qed

text \<open>
  Claim C2, as the code has it. On every frame \<open>HeliocentricSystem\<close> and \<open>MoonMesh\<close> each
  clamp the raw delta \<open>d\<close> to \<open>min d 0.05\<close>, and Earth's orbit angle, Earth's spin, the
  clouds' spin and the Moon's orbit advance by their rate times that clamped delta, so by
  the rate times exactly 0.05 whenever \<open>d\<close> exceeds the cap. The Sun's spin and the
  planets' spin advance by the raw delta, and a planet's position is a function of the
  elapsed time the clock reports, which no component clamps.
\<close>

theorem clamped_delta_drives_earth_and_moon:
  "orbitAngle (HeliocentricSystem_useFrame viewMode focusedPlanet t d s) =
     orbitAngle s + min d 0.05 * EARTH_YEAR_SPEED \<and>
   earthGroupRotationY (HeliocentricSystem_useFrame viewMode focusedPlanet t d s) =
     earthGroupRotationY s + min d 0.05 * EARTH_ROTATION_SPEED \<and>
   cloudsRotationY (HeliocentricSystem_useFrame viewMode focusedPlanet t d s) =
     cloudsRotationY s + min d 0.05 * (EARTH_ROTATION_SPEED * 1.0625) \<and>
   moonOrbitRotationY (MoonMesh_useFrame d m) =
     moonOrbitRotationY m + min d 0.05 * MOON_ORBIT_SPEED \<and>
   (0.05 < d \<longrightarrow> min d 0.05 = 0.05) \<and>
   sunRotationY (SunMesh_useFrame t d su) = sunRotationY su + d * 0.002 \<and>
   rotationY (PlanetMesh_useFrame config t d p) = rotationY p + rotationSpeed config * d \<and>
   vx (orbitPosition (PlanetMesh_useFrame config t d p)) =
     cos (startAngle config + t * speed config) * distance config \<and>
   vz (orbitPosition (PlanetMesh_useFrame config t d p)) =
     sin (startAngle config + t * speed config) * distance config"
  by (simp add: useFrame_orbitAngle useFrame_earthGroupRotationY useFrame_cloudsRotationY
        MoonMesh_useFrame_def SunMesh_useFrame_def PlanetMesh_useFrame_def currentAngle_def
        Let_def)

theorem clamped_delta_drives_earth_and_moon_witness:
  "(0.05::real) < 1 \<and>
   orbitAngle (HeliocentricSystem_useFrame EARTH_FREE None 1 1 HelioState_init) =
     orbitAngle HelioState_init + 0.05 * EARTH_YEAR_SPEED \<and>
   moonOrbitRotationY (MoonMesh_useFrame 1 \<lparr>moonOrbitRotationY = 0\<rparr>) =
     0 + 0.05 * MOON_ORBIT_SPEED"
proof -
  have a: "(0.05::real) < 1" by simp
  show ?thesis
    using clamped_delta_drives_earth_and_moon
            [of EARTH_FREE None 1 1 HelioState_init "\<lparr>moonOrbitRotationY = 0\<rparr>"]
          a
    by simp
qed

text \<open>
  The claim as the specification states it, that one clamped advance drives all body
  motions, fails on a frame whose raw delta is one second: the Sun's spin and Mercury's
  spin advance by the raw delta, not by the clamped one.
\<close>

theorem clamped_delta_all_bodies_counterexample:
  "sunRotationY (SunMesh_useFrame 1 1 \<lparr>sunRotationY = 0, uTime = 0\<rparr>)
     \<noteq> 0 + min 1 0.05 * 0.002 \<and>
   rotationY (PlanetMesh_useFrame (PLANETS ! 0) 1 1 PlanetMesh_init)
     \<noteq> rotationY PlanetMesh_init + rotationSpeed (PLANETS ! 0) * min 1 0.05"
  by (simp add: SunMesh_useFrame_def PlanetMesh_useFrame_def PlanetMesh_init_def PLANETS_def
        BASE_ROTATION_SPEED_def)

section \<open>Properties of the camera: drift guard and transition lock\<close>

lemma resnap_distance:
  "Vector3_distanceTo (Vector3_add e (Vector3 0 10 40)) e \<le> 300"
proof -
  have "Vector3_distanceTo (Vector3_add e (Vector3 0 10 40)) e = sqrt 1700"
    by (simp add: Vector3_distanceTo_def Vector3_add_def Let_def)
  moreover have "sqrt 1700 \<le> 300" by (rule real_le_lsqrt) simp_all
  ultimately show ?thesis by simp
qed

lemma camera_tracking_free:
  assumes "\<not> isTransitioning s" and "controlsTarget s = Some target"
  shows "cameraPosition (camera_tracking EARTH_FREE fp t e pd s) =
           (if 300 < Vector3_distanceTo (Vector3_add (cameraPosition s) pd) e
            then Vector3_add e (Vector3 0 10 40) else Vector3_add (cameraPosition s) pd)"
    and "controlsTarget (camera_tracking EARTH_FREE fp t e pd s) =
           (if 300 < Vector3_distanceTo (Vector3_add (cameraPosition s) pd) e
            then Some e else Some (Vector3_add target pd))"
  using assms by (simp_all add: camera_tracking_def Let_def)

lemma useFrame_free_camera:
  "cameraPosition (HeliocentricSystem_useFrame EARTH_FREE fp t d s) =
     cameraPosition (camera_tracking EARTH_FREE fp t
        (earthContainerPosition (HeliocentricSystem_useFrame EARTH_FREE fp t d s))
        (Vector3_sub (earthContainerPosition (HeliocentricSystem_useFrame EARTH_FREE fp t d s)) (prevEarthPos s))
        (s\<lparr>orbitAngle := orbitAngle s + min d 0.05 * EARTH_YEAR_SPEED,
           earthContainerPosition := earthContainerPosition (HeliocentricSystem_useFrame EARTH_FREE fp t d s)\<rparr>))"
  "controlsTarget (HeliocentricSystem_useFrame EARTH_FREE fp t d s) =
     controlsTarget (camera_tracking EARTH_FREE fp t
        (earthContainerPosition (HeliocentricSystem_useFrame EARTH_FREE fp t d s))
        (Vector3_sub (earthContainerPosition (HeliocentricSystem_useFrame EARTH_FREE fp t d s)) (prevEarthPos s))
        (s\<lparr>orbitAngle := orbitAngle s + min d 0.05 * EARTH_YEAR_SPEED,
           earthContainerPosition := earthContainerPosition (HeliocentricSystem_useFrame EARTH_FREE fp t d s)\<rparr>))"
  by (simp_all add: HeliocentricSystem_useFrame_def Let_def other_camera_modes_def
        camera_tracking_def split: option.splits)

text \<open>
  Claim C6. In the mode \<open>EARTH_FREE\<close>, outside the transition lock and with the orbit
  controls mounted, every frame ends with the camera at most 300 units from Earth's
  current position: when the camera, moved by Earth's movement of this frame, is farther
  than 300 from Earth, the same frame sets it to Earth plus (0, 10, 40) and the target to
  Earth; otherwise camera and target are the moved ones.
\<close>

theorem free_earth_drift_guard_bound:
  assumes "\<not> isTransitioning s" and "controlsTarget s = Some target"
  shows "(let s' = HeliocentricSystem_useFrame EARTH_FREE focusedPlanet t d s;
              currentEarthPos = earthContainerPosition s';
              posDelta = Vector3_sub currentEarthPos (prevEarthPos s);
              moved = Vector3_add (cameraPosition s) posDelta
          in Vector3_distanceTo (cameraPosition s') currentEarthPos \<le> 300 \<and>
             (300 < Vector3_distanceTo moved currentEarthPos \<longrightarrow>
                cameraPosition s' = Vector3_add currentEarthPos (Vector3 0 10 40) \<and>
                controlsTarget s' = Some currentEarthPos) \<and>
             (Vector3_distanceTo moved currentEarthPos \<le> 300 \<longrightarrow>
                cameraPosition s' = moved \<and>
                controlsTarget s' = Some (Vector3_add target posDelta)))"
proof -
  let ?s' = "HeliocentricSystem_useFrame EARTH_FREE focusedPlanet t d s"
  let ?e = "earthContainerPosition ?s'"
  let ?s1 = "s\<lparr>orbitAngle := orbitAngle s + min d 0.05 * EARTH_YEAR_SPEED,
               earthContainerPosition := ?e\<rparr>"
  have a: "\<not> isTransitioning ?s1" "controlsTarget ?s1 = Some target" "cameraPosition ?s1 = cameraPosition s"
    using assms by simp_all
  show ?thesis
    unfolding Let_def useFrame_free_camera
    unfolding camera_tracking_free[OF a(1,2)] a(3)
    using resnap_distance[of ?e] by simp
qed

lemma earth_at_rest:
  "earthContainerPosition (HeliocentricSystem_useFrame vm fp t 0 (HelioState_init\<lparr>cameraPosition := c\<rparr>)) = Vector3 170 0 0"
  by (simp add: useFrame_earthContainerPosition HelioState_init_def FOCAL_OFFSET_def SEMI_MAJOR_AXIS_def SEMI_MINOR_AXIS_def)

theorem free_earth_drift_guard_bound_witness:
  "\<not> isTransitioning (HelioState_init\<lparr>cameraPosition := Vector3 1000 0 0\<rparr>) \<and>
   controlsTarget (HelioState_init\<lparr>cameraPosition := Vector3 1000 0 0\<rparr>) = Some (Vector3 0 0 0) \<and>
   Vector3_distanceTo
     (cameraPosition (HeliocentricSystem_useFrame EARTH_FREE None 0 0 (HelioState_init\<lparr>cameraPosition := Vector3 1000 0 0\<rparr>)))
     (earthContainerPosition (HeliocentricSystem_useFrame EARTH_FREE None 0 0 (HelioState_init\<lparr>cameraPosition := Vector3 1000 0 0\<rparr>))) \<le> 300 \<and>
   cameraPosition (HeliocentricSystem_useFrame EARTH_FREE None 0 0 (HelioState_init\<lparr>cameraPosition := Vector3 1000 0 0\<rparr>)) = Vector3 170 10 40"
proof -
  let ?s = "HelioState_init\<lparr>cameraPosition := Vector3 1000 0 0\<rparr>"
  have a: "\<not> isTransitioning ?s" and b: "controlsTarget ?s = Some (Vector3 0 0 0)"
    by (simp_all add: HelioState_init_def)
  have far: "300 < Vector3_distanceTo (Vector3_add (cameraPosition ?s)
        (Vector3_sub (Vector3 170 0 0) (prevEarthPos ?s))) (Vector3 170 0 0)"
    by (simp add: HelioState_init_def Vector3_distanceTo_def Vector3_add_def Vector3_sub_def Let_def
          FOCAL_OFFSET_def SEMI_MAJOR_AXIS_def)
  let ?s' = "HeliocentricSystem_useFrame EARTH_FREE None 0 0 ?s"
  note th = free_earth_drift_guard_bound[OF a b, of None 0 0, unfolded Let_def earth_at_rest]
  from th have dist: "Vector3_distanceTo (cameraPosition ?s') (Vector3 170 0 0) \<le> 300"
    by (rule conjunct1)
  from th far have "cameraPosition ?s' = Vector3_add (Vector3 170 0 0) (Vector3 0 10 40)"
    by blast
  then have cam: "cameraPosition ?s' = Vector3 170 10 40"
    by (simp add: Vector3_add_def)
  show ?thesis
    unfolding earth_at_rest using a b dist cam by blast
qed

lemma camera_tracking_locked:
  assumes "isTransitioning s"
    and "viewMode = EARTH_FREE \<or> viewMode = SOLAR_SYSTEM \<and> \<not> truthy focusedPlanet"
  shows "camera_tracking viewMode focusedPlanet t e pd s = s"
  using assms by (auto simp: camera_tracking_def)

lemma other_camera_modes_free:
  assumes "viewMode = EARTH_FREE \<or> viewMode = SOLAR_SYSTEM"
  shows "other_camera_modes viewMode t e s = s"
  using assms by (auto simp: other_camera_modes_def)

lemma useFrame_locked_camera:
  assumes "isTransitioning s"
    and "viewMode = EARTH_FREE \<or> viewMode = SOLAR_SYSTEM \<and> \<not> truthy focusedPlanet"
  shows "cameraPosition (HeliocentricSystem_useFrame viewMode focusedPlanet t d s) = cameraPosition s"
    and "controlsTarget (HeliocentricSystem_useFrame viewMode focusedPlanet t d s) = controlsTarget s"
proof -
  have m: "viewMode = EARTH_FREE \<or> viewMode = SOLAR_SYSTEM" using assms(2) by blast
  show "cameraPosition (HeliocentricSystem_useFrame viewMode focusedPlanet t d s) = cameraPosition s"
    using assms(1)
    by (simp add: HeliocentricSystem_useFrame_def Let_def other_camera_modes_free[OF m]
          camera_tracking_locked[OF _ assms(2)])
  show "controlsTarget (HeliocentricSystem_useFrame viewMode focusedPlanet t d s) = controlsTarget s"
    using assms(1)
    by (simp add: HeliocentricSystem_useFrame_def Let_def other_camera_modes_free[OF m]
          camera_tracking_locked[OF _ assms(2)])
qed

lemma run_frames_locked:
  assumes "isTransitioning s"
  shows "\<forall>s' \<in> set (run_frames viewMode focusedPlanet frames s).
           isTransitioning s' \<and> timerDue s' = timerDue s \<and>
           (viewMode = EARTH_FREE \<or> viewMode = SOLAR_SYSTEM \<and> \<not> truthy focusedPlanet \<longrightarrow>
              cameraPosition s' = cameraPosition s \<and> controlsTarget s' = controlsTarget s)"
  using assms
proof (induction frames arbitrary: s)
  case Nil
  then show ?case by simp
next
  case (Cons f frames)
  obtain t d where f: "f = (t, d)" by (cases f)
  let ?s1 = "HeliocentricSystem_useFrame viewMode focusedPlanet t d s"
  have l: "isTransitioning ?s1" "timerDue ?s1 = timerDue s"
    using Cons.prems by (simp_all add: useFrame_lock)
  have c: "viewMode = EARTH_FREE \<or> viewMode = SOLAR_SYSTEM \<and> \<not> truthy focusedPlanet \<Longrightarrow>
      cameraPosition ?s1 = cameraPosition s \<and> controlsTarget ?s1 = controlsTarget s"
    using useFrame_locked_camera[OF Cons.prems] by simp
  show ?case using Cons.IH[OF l(1)] l c by (auto simp: f Let_def)
qed

lemma run_timer_early:
  assumes "timerDue s = Some due" "now < due"
  shows "run_timer viewMode focusedPlanet now s = s"
  using assms by (simp add: run_timer_def)

lemma run_timer_due:
  assumes "timerDue s = Some due" "due \<le> now"
  shows "\<not> isTransitioning (run_timer viewMode focusedPlanet now s)"
    and "timerDue (run_timer viewMode focusedPlanet now s) = None"
    and "(cameraPosition (run_timer viewMode focusedPlanet now s),
          controlsTarget (run_timer viewMode focusedPlanet now s)) =
           (if controlsTarget s = None then (cameraPosition s, None)
            else if viewMode = EARTH_FREE
              then (Vector3_add (earthContainerPosition s) (Vector3 0 6 18),
                    Some (earthContainerPosition s))
            else if viewMode = SOLAR_SYSTEM \<and> \<not> truthy focusedPlanet
              then (Vector3 0 400 600, Some (Vector3 0 0 0))
            else (cameraPosition s, controlsTarget s))"
  using assms
  by (auto simp: run_timer_def transition_timeout_def Let_def Vector3_add_def split: option.splits)

text \<open>
  Claim C5, as the code has it. Every change of the view mode or of the focused planet
  sets the lock and starts a timer of 100 ms, and leaves the camera as it is. While the
  lock is set, every frame keeps the lock and the timer, and in the mode \<open>EARTH_FREE\<close>
  (whose camera branch the lock gates) and in \<open>SOLAR_SYSTEM\<close> without a focused planet
  (where no branch writes the camera) it leaves the camera position and the target of
  the controls unchanged. Before the 100 ms are over the timer does nothing; from then on
  it clears the lock and, when camera and controls are mounted, sets the camera to Earth
  plus (0, 6, 18) with Earth as target in \<open>EARTH_FREE\<close>, to (0, 400, 600) with the origin
  as target in \<open>SOLAR_SYSTEM\<close> without a focused planet, and leaves the camera as it is in
  every other case.
\<close>

theorem transition_lock_gates_free_modes:
  assumes "(viewMode, focusedPlanet) \<noteq> old"
  shows "(let s1 = props_change old (viewMode, focusedPlanet) now s in
     isTransitioning s1 \<and> timerDue s1 = Some (now + 100) \<and>
     cameraPosition s1 = cameraPosition s \<and> controlsTarget s1 = controlsTarget s \<and>
     (\<forall>s' \<in> set (run_frames viewMode focusedPlanet frames s1).
         isTransitioning s' \<and> timerDue s' = Some (now + 100) \<and>
         (viewMode = EARTH_FREE \<or> viewMode = SOLAR_SYSTEM \<and> \<not> truthy focusedPlanet \<longrightarrow>
            cameraPosition s' = cameraPosition s \<and> controlsTarget s' = controlsTarget s)) \<and>
     (\<forall>s' \<in> set (s1 # run_frames viewMode focusedPlanet frames s1). \<forall>now'.
         (now' < now + 100 \<longrightarrow> run_timer viewMode focusedPlanet now' s' = s') \<and>
         (now + 100 \<le> now' \<longrightarrow>
            \<not> isTransitioning (run_timer viewMode focusedPlanet now' s') \<and>
            timerDue (run_timer viewMode focusedPlanet now' s') = None \<and>
            (cameraPosition (run_timer viewMode focusedPlanet now' s'),
             controlsTarget (run_timer viewMode focusedPlanet now' s')) =
              (if controlsTarget s' = None then (cameraPosition s', None)
               else if viewMode = EARTH_FREE
                 then (Vector3_add (earthContainerPosition s') (Vector3 0 6 18),
                       Some (earthContainerPosition s'))
               else if viewMode = SOLAR_SYSTEM \<and> \<not> truthy focusedPlanet
                 then (Vector3 0 400 600, Some (Vector3 0 0 0))
               else (cameraPosition s', controlsTarget s')))))"
proof -
  define s1 where "s1 = props_change old (viewMode, focusedPlanet) now s"
  have s1: "isTransitioning s1" "timerDue s1 = Some (now + 100)"
    "cameraPosition s1 = cameraPosition s" "controlsTarget s1 = controlsTarget s"
    using assms
    by (simp_all add: s1_def props_change_def useEffect_transition_def TRANSITION_DELAY_MS_def)
  have fr: "\<forall>s' \<in> set (run_frames viewMode focusedPlanet frames s1).
           isTransitioning s' \<and> timerDue s' = Some (now + 100) \<and>
           (viewMode = EARTH_FREE \<or> viewMode = SOLAR_SYSTEM \<and> \<not> truthy focusedPlanet \<longrightarrow>
              cameraPosition s' = cameraPosition s \<and> controlsTarget s' = controlsTarget s)"
    using run_frames_locked[OF s1(1), of viewMode focusedPlanet frames]
    unfolding s1(2,3,4) .
  have due: "\<forall>s' \<in> set (s1 # run_frames viewMode focusedPlanet frames s1).
      timerDue s' = Some (now + 100)"
    using fr s1(2) by simp
  have tm: "\<forall>s' \<in> set (s1 # run_frames viewMode focusedPlanet frames s1). \<forall>now'.
         (now' < now + 100 \<longrightarrow> run_timer viewMode focusedPlanet now' s' = s') \<and>
         (now + 100 \<le> now' \<longrightarrow>
            \<not> isTransitioning (run_timer viewMode focusedPlanet now' s') \<and>
            timerDue (run_timer viewMode focusedPlanet now' s') = None \<and>
            (cameraPosition (run_timer viewMode focusedPlanet now' s'),
             controlsTarget (run_timer viewMode focusedPlanet now' s')) =
              (if controlsTarget s' = None then (cameraPosition s', None)
               else if viewMode = EARTH_FREE
                 then (Vector3_add (earthContainerPosition s') (Vector3 0 6 18),
                       Some (earthContainerPosition s'))
               else if viewMode = SOLAR_SYSTEM \<and> \<not> truthy focusedPlanet
                 then (Vector3 0 400 600, Some (Vector3 0 0 0))
               else (cameraPosition s', controlsTarget s')))"
  proof (intro ballI allI conjI impI)
    fix s' now'
    assume m: "s' \<in> set (s1 # run_frames viewMode focusedPlanet frames s1)"
    then have d: "timerDue s' = Some (now + 100)" using due by blast
    { assume "now' < now + 100"
      then show "run_timer viewMode focusedPlanet now' s' = s'"
        using run_timer_early[OF d] by blast }
    { assume l: "now + 100 \<le> now'"
      show "\<not> isTransitioning (run_timer viewMode focusedPlanet now' s')"
        using run_timer_due(1)[OF d l] .
      show "timerDue (run_timer viewMode focusedPlanet now' s') = None"
        using run_timer_due(2)[OF d l] .
      show "(cameraPosition (run_timer viewMode focusedPlanet now' s'),
             controlsTarget (run_timer viewMode focusedPlanet now' s')) =
              (if controlsTarget s' = None then (cameraPosition s', None)
               else if viewMode = EARTH_FREE
                 then (Vector3_add (earthContainerPosition s') (Vector3 0 6 18),
                       Some (earthContainerPosition s'))
               else if viewMode = SOLAR_SYSTEM \<and> \<not> truthy focusedPlanet
                 then (Vector3 0 400 600, Some (Vector3 0 0 0))
               else (cameraPosition s', controlsTarget s'))"
        using run_timer_due(3)[OF d l] . }
  qed
  show ?thesis
    unfolding Let_def s1_def[symmetric] using s1 fr tm by blast
qed

text \<open>
  The claim as the specification states it, that during the lock the frame leaves the
  camera unchanged in every view mode, fails in the mode \<open>EARTH_DAY\<close> (the Day View
  button): right after the change into that mode, with the lock set and the mode's camera
  at its start position (0, 50, 100), the first frame puts the camera at Earth's height
  plus 5.
\<close>

theorem transition_lock_every_mode_counterexample:
  "isTransitioning (props_change (EARTH_FREE, None) (EARTH_DAY, None) 0
       (HelioState_init\<lparr>cameraPosition := Vector3 0 50 100, controlsTarget := None\<rparr>)) \<and>
   vy (cameraPosition (props_change (EARTH_FREE, None) (EARTH_DAY, None) 0
       (HelioState_init\<lparr>cameraPosition := Vector3 0 50 100, controlsTarget := None\<rparr>))) = 50 \<and>
   vy (cameraPosition (HeliocentricSystem_useFrame EARTH_DAY None 0.016 0.016
     (props_change (EARTH_FREE, None) (EARTH_DAY, None) 0
       (HelioState_init\<lparr>cameraPosition := Vector3 0 50 100, controlsTarget := None\<rparr>)))) = 5"
  by (simp add: props_change_def useEffect_transition_def HelioState_init_def
        HeliocentricSystem_useFrame_def camera_tracking_def other_camera_modes_def Let_def
        Vector3_normalize_def Vector3_sub_def Vector3_add_def Vector3_multiplyScalar_def)

theorem transition_lock_gates_free_modes_witness:
  "(EARTH_FREE, None) \<noteq> (SOLAR_SYSTEM, (None :: string option)) \<and>
   isTransitioning (props_change (SOLAR_SYSTEM, None) (EARTH_FREE, None) 0 HelioState_init) \<and>
   list_all (\<lambda>s'. isTransitioning s' \<and> cameraPosition s' = cameraPosition HelioState_init \<and>
                   controlsTarget s' = controlsTarget HelioState_init)
     (run_frames EARTH_FREE None [(0.016, 0.016)]
        (props_change (SOLAR_SYSTEM, None) (EARTH_FREE, None) 0 HelioState_init)) \<and>
   (50 :: nat) < 0 + 100 \<and>
   run_timer EARTH_FREE None 50
       (props_change (SOLAR_SYSTEM, None) (EARTH_FREE, None) 0 HelioState_init) =
     props_change (SOLAR_SYSTEM, None) (EARTH_FREE, None) 0 HelioState_init \<and>
   (0 :: nat) + 100 \<le> 100 \<and>
   \<not> isTransitioning (run_timer EARTH_FREE None 100
       (props_change (SOLAR_SYSTEM, None) (EARTH_FREE, None) 0 HelioState_init)) \<and>
   cameraPosition (run_timer EARTH_FREE None 100
       (props_change (SOLAR_SYSTEM, None) (EARTH_FREE, None) 0 HelioState_init)) =
     Vector3 170 6 18"
proof -
  let ?s1 = "props_change (SOLAR_SYSTEM, None) (EARTH_FREE, None) 0 HelioState_init"
  have ne: "(EARTH_FREE, None) \<noteq> (SOLAR_SYSTEM, (None :: string option))" by simp
  have t: "(50 :: nat) < 0 + 100" "(0 :: nat) + 100 \<le> 100" by simp_all
  note th = transition_lock_gates_free_modes[OF ne, of 0 HelioState_init "[(0.016, 0.016)]", unfolded Let_def]
  have lock: "isTransitioning ?s1" using th by blast
  have ct: "controlsTarget ?s1 = controlsTarget HelioState_init" using th by blast
  have fr: "\<forall>s' \<in> set (run_frames EARTH_FREE None [(0.016, 0.016)] ?s1).
      isTransitioning s' \<and> cameraPosition s' = cameraPosition HelioState_init \<and>
      controlsTarget s' = controlsTarget HelioState_init"
    using th by blast
  have tm: "\<forall>now'. (now' < 0 + 100 \<longrightarrow> run_timer EARTH_FREE None now' ?s1 = ?s1) \<and>
      (0 + 100 \<le> now' \<longrightarrow>
         \<not> isTransitioning (run_timer EARTH_FREE None now' ?s1) \<and>
         (cameraPosition (run_timer EARTH_FREE None now' ?s1),
          controlsTarget (run_timer EARTH_FREE None now' ?s1)) =
           (if controlsTarget ?s1 = None then (cameraPosition ?s1, None)
            else (Vector3_add (earthContainerPosition ?s1) (Vector3 0 6 18),
                  Some (earthContainerPosition ?s1))))"
    using th by simp
  have early: "run_timer EARTH_FREE None 50 ?s1 = ?s1" using tm t(1) by blast
  have unl: "\<not> isTransitioning (run_timer EARTH_FREE None 100 ?s1)" using tm t(2) by blast
  have e: "earthContainerPosition ?s1 = Vector3 170 0 0" "controlsTarget HelioState_init \<noteq> None"
    by (simp_all add: props_change_def useEffect_transition_def HelioState_init_def
          SEMI_MAJOR_AXIS_def FOCAL_OFFSET_def)
  have "(cameraPosition (run_timer EARTH_FREE None 100 ?s1),
          controlsTarget (run_timer EARTH_FREE None 100 ?s1)) =
           (if controlsTarget ?s1 = None then (cameraPosition ?s1, None)
            else (Vector3_add (earthContainerPosition ?s1) (Vector3 0 6 18),
                  Some (earthContainerPosition ?s1)))"
    using tm t(2) by blast
  then have snap: "cameraPosition (run_timer EARTH_FREE None 100 ?s1) = Vector3 170 6 18"
    using e ct by (simp add: Vector3_add_def)
  show ?thesis
    unfolding list_all_iff using ne lock fr t early unl snap by blast
qed

end
